theory Spec2Isabelle
  imports Complex_Main "HOL-Library.Word"
begin

section \<open>JavaScript values\<close>

text \<open>
  A JavaScript string is a sequence of 16-bit code units. \<open>js\<close> embeds an ASCII literal
  of the source.
\<close>

type_synonym jsstring = "16 word list"

definition js :: "string \<Rightarrow> jsstring" where
  "js s = map (\<lambda>c. of_nat (of_char c)) s"

text \<open>
  \<^verbatim>\<open>String.prototype.trim\<close> removes the ECMAScript WhiteSpace and LineTerminator code
  units from both ends: TAB, LF, VT, FF, CR, SP, NBSP, U+1680, U+2000 to U+200A, U+2028,
  U+2029, U+202F, U+205F, U+3000 and U+FEFF.
\<close>

definition is_ws :: "16 word \<Rightarrow> bool" where
  "is_ws c \<longleftrightarrow>
     c \<in> {0x09, 0x0A, 0x0B, 0x0C, 0x0D, 0x20, 0xA0, 0x1680, 0x2028, 0x2029, 0x202F,
          0x205F, 0x3000, 0xFEFF}
     \<or> (0x2000 \<le> c \<and> c \<le> 0x200A)"

definition trim :: "jsstring \<Rightarrow> jsstring" where
  "trim s = rev (dropWhile is_ws (rev (dropWhile is_ws s)))"

text \<open>
  A JavaScript number is a binary64 value. The finite ones are modelled by their exact
  rational value, with \<open>-0\<close> identified with \<open>0\<close> as \<^verbatim>\<open>===\<close> does, and arithmetic
  on them is exact: the rounding and the overflow of a binary64 addition are not
  represented. The three non-finite values are kept apart, since \<^verbatim>\<open>typeof\<close> and
  \<^verbatim>\<open>JSON.stringify\<close> treat them differently from each other.
\<close>

datatype jsnum = Fin rat | PInf | NInf | NaN

text \<open>
  Reading a number literal: a literal whose value rounds beyond the largest binary64
  value, \<open>2^1024 - 2^971\<close>, reads as an infinity. That is so from halfway to \<open>2^1024\<close> on.
\<close>

definition overflow_threshold :: rat where
  "overflow_threshold = 2 ^ 1024 - 2 ^ 970"

definition number_value :: "rat \<Rightarrow> jsnum" where
  "number_value r =
     (if overflow_threshold \<le> r then PInf
      else if r \<le> - overflow_threshold then NInf
      else Fin r)"

fun jadd :: "jsnum \<Rightarrow> jsnum \<Rightarrow> jsnum" where
  "jadd NaN _ = NaN"
| "jadd _ NaN = NaN"
| "jadd PInf NInf = NaN"
| "jadd NInf PInf = NaN"
| "jadd PInf _ = PInf"
| "jadd _ PInf = PInf"
| "jadd NInf _ = NInf"
| "jadd _ NInf = NInf"
| "jadd (Fin a) (Fin b) = Fin (a + b)"

text \<open>
  \<^verbatim>\<open>+(x).toFixed(1)\<close>: \<^verbatim>\<open>toFixed\<close> prints \<open>NaN\<close> and the infinities by name and a
  number of magnitude \<open>10^21\<close> or more by \<^verbatim>\<open>ToString\<close>, and the unary plus reads each of
  them back; below \<open>10^21\<close> it prints \<open>n / 10\<close> for the integer \<open>n\<close> nearest to
  \<open>10 * |x|\<close>, the larger one on a tie, with the sign of \<open>x\<close>.
\<close>

fun toFixed1 :: "jsnum \<Rightarrow> jsnum" where
  "toFixed1 (Fin x) =
     (if 10 ^ 21 \<le> \<bar>x\<bar> then Fin x
      else Fin (sgn x * of_int \<lfloor>\<bar>x\<bar> * 10 + 1 / 2\<rfloor> / 10))"
| "toFixed1 n = n"

text \<open>
  The values \<^verbatim>\<open>JSON.parse\<close> returns, and \<^verbatim>\<open>undefined\<close>, which reading an absent
  property gives. An object is the list of its properties in the order of the text; a
  repeated key takes its last value.
\<close>

datatype jsval =
    Undefined
  | Null
  | Bool bool
  | Number jsnum
  | String jsstring
  | Array "jsval list"
  | Object "(jsstring \<times> jsval) list"

datatype jstype = T_undefined | T_object | T_boolean | T_number | T_string

fun typeof :: "jsval \<Rightarrow> jstype" where
  "typeof Undefined = T_undefined"
| "typeof Null = T_object"
| "typeof (Bool _) = T_boolean"
| "typeof (Number _) = T_number"
| "typeof (String _) = T_string"
| "typeof (Array _) = T_object"
| "typeof (Object _) = T_object"

datatype exn = SyntaxError | TypeError

text \<open>
  Reading one of the six property names of \<^verbatim>\<open>FoodItem\<close> from a value. On \<^verbatim>\<open>null\<close> and
  \<^verbatim>\<open>undefined\<close> the read throws; a boolean, a number, a string and an array have none of
  these six properties (nor have their prototypes), so the read gives \<^verbatim>\<open>undefined\<close>.
\<close>

fun get_prop :: "jsval \<Rightarrow> jsstring \<Rightarrow> exn + jsval" where
  "get_prop Undefined k = Inl TypeError"
| "get_prop Null k = Inl TypeError"
| "get_prop (Object kvs) k =
     Inr (case map_of (rev kvs) k of None \<Rightarrow> Undefined | Some v \<Rightarrow> v)"
| "get_prop _ k = Inr Undefined"

section \<open>The data of \<^verbatim>\<open>App.tsx\<close>\<close>

text \<open>
  \<^verbatim>\<open>interface FoodItem\<close> (lines 3 to 10). The accumulator of the \<^verbatim>\<open>reduce\<close> that
  computes the totals (line 199) has the five numeric fields of a \<^verbatim>\<open>FoodItem\<close>, so
  \<open>FoodItem\<close> extends it by \<open>name\<close>.
\<close>

record Totals =
  calories :: jsnum
  protein :: jsnum
  carbs :: jsnum
  fat :: jsnum
  weight :: jsnum

record FoodItem = Totals +
  name :: jsstring

text \<open>
  The state of the component (lines 17 to 24). A \<^verbatim>\<open>FoodSuggestion\<close> has the single field
  \<^verbatim>\<open>name\<close> and is represented by it.
\<close>

record app_state =
  foodName :: jsstring
  unit :: jsstring
  quantity :: jsstring
  foodItems :: "FoodItem list"
  isLoading :: bool
  error :: jsstring
  suggestions :: "jsstring list"
  showSuggestions :: bool

text \<open>
  The asynchronous work the component has started and that has not finished: the timers
  set by the debounce effect (identifier, earliest firing time, the \<^verbatim>\<open>foodName\<close> captured
  by the callback), the identifier held by the cleanup function of the last effect run,
  the requests of \<^verbatim>\<open>fetchSuggestions\<close> (the query of each) and of
  \<^verbatim>\<open>fetchNutritionInfo\<close> (for each, the \<^verbatim>\<open>foodItems\<close> captured by the \<^verbatim>\<open>handleAddFood\<close>
  that awaits it). \<open>issued\<close> is a history variable: the queries of all suggestion requests
  sent so far, oldest first.
\<close>

record app = app_state +
  clock :: nat
  nextTimer :: nat
  effectTimer :: nat
  timers :: "(nat \<times> nat \<times> jsstring) list"
  suggestFetches :: "jsstring list"
  nutritionFetches :: "FoodItem list list"
  issued :: "jsstring list"

section \<open>The debounce effect\<close>

text \<open>
  \<^verbatim>\<open>useEffect\<close> (lines 150 to 161) runs after the first render and after every render in
  which \<^verbatim>\<open>foodName\<close> has changed. A run first calls the cleanup function the previous run
  returned, which clears that run's timer, and then sets a timer of 300 ms whose callback
  holds the new \<^verbatim>\<open>foodName\<close>. A timer fires no earlier than its delay.
\<close>

definition runEffect :: "app \<Rightarrow> app" where
  "runEffect w =
     w\<lparr>nextTimer := nextTimer w + 1, effectTimer := nextTimer w,
       timers := filter (\<lambda>t. fst t \<noteq> effectTimer w) (timers w)
                 @ [(nextTimer w, clock w + 300, foodName w)]\<rparr>"

definition setFoodName :: "jsstring \<Rightarrow> app \<Rightarrow> app" where
  "setFoodName v w = (if v = foodName w then w else runEffect (w\<lparr>foodName := v\<rparr>))"

text \<open>The component after its first render: the initial state and the first effect run.\<close>

definition mount :: app where
  "mount = runEffect
     \<lparr>foodName = [], unit = js ''grams'', quantity = js ''100'', foodItems = [],
      isLoading = False, error = [], suggestions = [], showSuggestions = False,
      clock = 0, nextTimer = 0, effectTimer = 0, timers = [], suggestFetches = [],
      nutritionFetches = [], issued = []\<rparr>"

section \<open>Suggestions\<close>

text \<open>
  \<^verbatim>\<open>fetchSuggestions\<close> (lines 70 to 108) up to its \<^verbatim>\<open>await\<close>: a blank query clears the
  suggestions and sends nothing; otherwise the request is sent.
\<close>

definition fetchSuggestions :: "jsstring \<Rightarrow> app \<Rightarrow> app" where
  "fetchSuggestions query w =
     (if trim query = [] then w\<lparr>suggestions := []\<rparr>
      else w\<lparr>suggestFetches := suggestFetches w @ [query], issued := issued w @ [query]\<rparr>)"

text \<open>
  What a request to the provider comes to: one of the failures that the \<^verbatim>\<open>try\<close> block
  turns into an exception (\<^verbatim>\<open>fetch\<close> rejects; the body is not JSON or has no
  \<^verbatim>\<open>candidates[0].content.parts[0].text\<close> string; the text in it is not JSON), or the
  parsed payload, read at the type the source declares for it (\<^verbatim>\<open>Promise<FoodItem>\<close>, and
  a list of names for the suggestions). The source does not check the payload against
  that type.
\<close>

datatype lookup_failure = NetworkError | MalformedResponse | PayloadNotJson

definition remove_nth :: "nat \<Rightarrow> 'a list \<Rightarrow> 'a list" where
  "remove_nth i xs = take i xs @ drop (Suc i) xs"

text \<open>
  The rest of \<^verbatim>\<open>fetchSuggestions\<close>, run when request \<open>i\<close> settles (lines 97 to 107). It
  does not look at the current \<^verbatim>\<open>foodName\<close>.
\<close>

definition suggestionsSettled :: "nat \<Rightarrow> lookup_failure + jsstring list \<Rightarrow> app \<Rightarrow> app" where
  "suggestionsSettled i r w =
     (let w1 = w\<lparr>suggestFetches := remove_nth i (suggestFetches w)\<rparr>
      in case r of
           Inl e \<Rightarrow> w1\<lparr>suggestions := []\<rparr>
         | Inr names \<Rightarrow> w1\<lparr>suggestions := names, showSuggestions := True\<rparr>)"

text \<open>The callback of the debounce timer (lines 151 to 158), for the timer \<open>t\<close>.\<close>

definition timerFires :: "nat \<times> nat \<times> jsstring \<Rightarrow> app \<Rightarrow> app" where
  "timerFires t w =
     (let w1 = w\<lparr>timers := removeAll t (timers w)\<rparr>; captured = snd (snd t)
      in if captured \<noteq> [] then fetchSuggestions captured w1
         else w1\<lparr>suggestions := [], showSuggestions := False\<rparr>)"

text \<open>\<^verbatim>\<open>handleSelectSuggestion\<close> (lines 182 to 186).\<close>

definition handleSelectSuggestion :: "jsstring \<Rightarrow> app \<Rightarrow> app" where
  "handleSelectSuggestion s w = setFoodName s (w\<lparr>suggestions := [], showSuggestions := False\<rparr>)"

section \<open>Adding a food\<close>

text \<open>
  \<^verbatim>\<open>handleAddFood\<close> (lines 164 to 180) up to its \<^verbatim>\<open>await\<close>: the check of the name, then
  the synchronous start of \<^verbatim>\<open>fetchNutritionInfo\<close> (lines 111 to 115), which sets
  \<^verbatim>\<open>isLoading\<close>, clears \<^verbatim>\<open>error\<close> and sends the request.
\<close>

definition handleAddFood :: "app \<Rightarrow> app" where
  "handleAddFood w =
     (if trim (foodName w) = [] then w\<lparr>error := js ''Please enter a food name''\<rparr>
      else w\<lparr>isLoading := True, error := [],
             nutritionFetches := nutritionFetches w @ [foodItems w]\<rparr>)"

text \<open>
  The rest of both functions, run when request \<open>i\<close> settles. On a failure, the \<^verbatim>\<open>catch\<close>
  and \<^verbatim>\<open>finally\<close> of \<^verbatim>\<open>fetchNutritionInfo\<close> (lines 141 to 147) run and \<^verbatim>\<open>handleAddFood\<close>
  only logs (lines 176 to 179). On success, \<^verbatim>\<open>finally\<close> runs and \<^verbatim>\<open>handleAddFood\<close>
  goes on (lines 172 to 175) with the \<^verbatim>\<open>foodItems\<close> of the render it was called in.
\<close>

definition nutritionSettled :: "nat \<Rightarrow> lookup_failure + FoodItem \<Rightarrow> app \<Rightarrow> app" where
  "nutritionSettled i r w =
     (let captured = nutritionFetches w ! i;
          w1 = w\<lparr>nutritionFetches := remove_nth i (nutritionFetches w)\<rparr>
      in case r of
           Inl e \<Rightarrow>
             w1\<lparr>error := js ''Failed to fetch nutrition information. Please try again.'',
                isLoading := False\<rparr>
         | Inr nutritionInfo \<Rightarrow>
             setFoodName []
               (w1\<lparr>isLoading := False, foodItems := captured @ [nutritionInfo],
                   suggestions := [], showSuggestions := False\<rparr>))"

section \<open>Totals\<close>

text \<open>The \<^verbatim>\<open>reduce\<close> of lines 189 to 200.\<close>

definition totals_step :: "Totals \<Rightarrow> FoodItem \<Rightarrow> Totals" where
  "totals_step acc item =
     \<lparr>calories = jadd (calories acc) (calories item),
      protein = toFixed1 (jadd (protein acc) (protein item)),
      carbs = toFixed1 (jadd (carbs acc) (carbs item)),
      fat = toFixed1 (jadd (fat acc) (fat item)),
      weight = toFixed1 (jadd (weight acc) (weight item))\<rparr>"

definition totals :: "FoodItem list \<Rightarrow> Totals" where
  "totals items =
     foldl totals_step
       \<lparr>calories = Fin 0, protein = Fin 0, carbs = Fin 0, fat = Fin 0, weight = Fin 0\<rparr> items"

section \<open>Export and import\<close>

text \<open>
  A text is represented by what \<^verbatim>\<open>JSON.parse\<close> makes of it: not JSON, or the document it
  denotes. White space, indentation, escapes and the spelling of a number are not
  represented; a number literal is represented by its value, which \<^verbatim>\<open>JSON.parse\<close> reads
  as a number by \<open>number_value\<close>.
\<close>

datatype json =
    JNull
  | JBool bool
  | JNumber rat
  | JString jsstring
  | JArray "json list"
  | JObject "(jsstring \<times> json) list"

datatype jstext = Malformed | Doc json

primrec value_of :: "json \<Rightarrow> jsval" where
  "value_of JNull = Null"
| "value_of (JBool b) = Bool b"
| "value_of (JNumber r) = Number (number_value r)"
| "value_of (JString s) = String s"
| "value_of (JArray xs) = Array (map value_of xs)"
| "value_of (JObject kvs) = Object (map (map_prod id value_of) kvs)"

fun JSON_parse :: "jstext \<Rightarrow> exn + jsval" where
  "JSON_parse Malformed = Inl SyntaxError"
| "JSON_parse (Doc j) = Inr (value_of j)"

text \<open>
  \<^verbatim>\<open>JSON.stringify\<close> on an array of \<^verbatim>\<open>FoodItem\<close>: a finite number is written so that it
  reads back as itself, \<open>NaN\<close> and the infinities are written \<^verbatim>\<open>null\<close>.
\<close>

fun number_json :: "jsnum \<Rightarrow> json" where
  "number_json (Fin r) = JNumber r"
| "number_json n = JNull"

definition item_json :: "FoodItem \<Rightarrow> json" where
  "item_json f =
     JObject [(js ''name'', JString (name f)),
              (js ''calories'', number_json (calories f)),
              (js ''protein'', number_json (protein f)),
              (js ''carbs'', number_json (carbs f)),
              (js ''fat'', number_json (fat f)),
              (js ''weight'', number_json (weight f))]"

definition JSON_stringify :: "FoodItem list \<Rightarrow> jstext" where
  "JSON_stringify fs = Doc (JArray (map item_json fs))"

text \<open>\<^verbatim>\<open>exportDiet\<close> (lines 26 to 37): the text of the downloaded file.\<close>

definition exportDiet :: "'a app_state_scheme \<Rightarrow> jstext" where
  "exportDiet s = JSON_stringify (foodItems s)"

text \<open>
  The callback of \<^verbatim>\<open>every\<close> (lines 49 to 56): a chain of \<^verbatim>\<open>&&\<close>, each operand reading a
  property of the item and comparing its \<^verbatim>\<open>typeof\<close>.
\<close>

definition has_type :: "jsval \<Rightarrow> jsstring \<Rightarrow> jstype \<Rightarrow> exn + bool" where
  "has_type item k t = (case get_prop item k of Inl e \<Rightarrow> Inl e | Inr v \<Rightarrow> Inr (typeof v = t))"

fun and_then :: "exn + bool \<Rightarrow> exn + bool \<Rightarrow> exn + bool" where
  "and_then (Inl e) b = Inl e"
| "and_then (Inr False) b = Inr False"
| "and_then (Inr True) b = b"

definition isValid_item :: "jsval \<Rightarrow> exn + bool" where
  "isValid_item item =
     and_then (has_type item (js ''name'') T_string)
    (and_then (has_type item (js ''calories'') T_number)
    (and_then (has_type item (js ''protein'') T_number)
    (and_then (has_type item (js ''carbs'') T_number)
    (and_then (has_type item (js ''fat'') T_number)
              (has_type item (js ''weight'') T_number)))))"

text \<open>\<^verbatim>\<open>Array.prototype.every\<close>: in order, stopping at the first \<^verbatim>\<open>false\<close> or exception.\<close>

fun every :: "('a \<Rightarrow> exn + bool) \<Rightarrow> 'a list \<Rightarrow> exn + bool" where
  "every p [] = Inr True"
| "every p (x # xs) =
     (case p x of Inl e \<Rightarrow> Inl e | Inr False \<Rightarrow> Inr False | Inr True \<Rightarrow> every p xs)"

text \<open>
  \<^verbatim>\<open>importedItems.every(...)\<close>: a parsed value that is not an array has no method
  \<^verbatim>\<open>every\<close>, and the call throws.
\<close>

fun isValid :: "jsval \<Rightarrow> exn + bool" where
  "isValid (Array items) = every isValid_item items"
| "isValid v = Inl TypeError"

text \<open>
  The cast \<^verbatim>\<open>as FoodItem[]\<close> of line 47: a validated item is read through the interface.
  It is applied only after the checks of \<open>isValid\<close> have passed.
\<close>

fun string_of :: "exn + jsval \<Rightarrow> jsstring" where
  "string_of (Inr (String s)) = s"
| "string_of v = []"

fun number_of :: "exn + jsval \<Rightarrow> jsnum" where
  "number_of (Inr (Number n)) = n"
| "number_of v = NaN"

definition as_FoodItem :: "jsval \<Rightarrow> FoodItem" where
  "as_FoodItem item =
     \<lparr>calories = number_of (get_prop item (js ''calories'')),
      protein = number_of (get_prop item (js ''protein'')),
      carbs = number_of (get_prop item (js ''carbs'')),
      fat = number_of (get_prop item (js ''fat'')),
      weight = number_of (get_prop item (js ''weight'')),
      name = string_of (get_prop item (js ''name''))\<rparr>"

fun as_FoodItems :: "jsval \<Rightarrow> FoodItem list" where
  "as_FoodItems (Array items) = map as_FoodItem items"
| "as_FoodItems v = []"

text \<open>
  The \<^verbatim>\<open>onload\<close> callback of \<^verbatim>\<open>importDiet\<close> (lines 44 to 66), for the text of the file.
\<close>

definition importDiet :: "jstext \<Rightarrow> 'a app_state_scheme \<Rightarrow> 'a app_state_scheme" where
  "importDiet content s =
     (case JSON_parse content of
        Inl e \<Rightarrow> s\<lparr>error := js ''Failed to import diet plan. Please check the file format.''\<rparr>
      | Inr importedItems \<Rightarrow>
          (case isValid importedItems of
             Inl e \<Rightarrow>
               s\<lparr>error := js ''Failed to import diet plan. Please check the file format.''\<rparr>
           | Inr True \<Rightarrow> s\<lparr>foodItems := as_FoodItems importedItems\<rparr>
           | Inr False \<Rightarrow> s\<lparr>error := js ''Invalid diet plan format''\<rparr>))"

section \<open>The component as a transition system\<close>

text \<open>
  One event is one callback run to its end: JavaScript runs them one at a time. The Add
  button is rendered with \<^verbatim>\<open>disabled={isLoading}\<close> (line 260), so a click reaches
  \<^verbatim>\<open>handleAddFood\<close> only while \<^verbatim>\<open>isLoading\<close> is false; the list of suggestions is rendered
  only while \<^verbatim>\<open>showSuggestions\<close> holds (line 221). \<open>Tick\<close> lets time pass.
\<close>

datatype event =
    ChangeFoodName jsstring
  | FocusInput
  | ChangeQuantity jsstring
  | ChangeUnit jsstring
  | ClickAdd
  | NutritionSettled nat "lookup_failure + FoodItem"
  | TimerFires nat
  | SuggestionsSettled nat "lookup_failure + jsstring list"
  | SelectSuggestion jsstring
  | ImportLoaded jstext
  | ClickExport
  | Tick nat

fun step :: "event \<Rightarrow> app \<Rightarrow> app option" where
  "step (ChangeFoodName v) w = Some (setFoodName v w)"
| "step FocusInput w = Some (w\<lparr>showSuggestions := True\<rparr>)"
| "step (ChangeQuantity v) w = Some (w\<lparr>quantity := v\<rparr>)"
| "step (ChangeUnit v) w = Some (w\<lparr>unit := v\<rparr>)"
| "step ClickAdd w = (if isLoading w then None else Some (handleAddFood w))"
| "step (NutritionSettled i r) w =
     (if i < length (nutritionFetches w) then Some (nutritionSettled i r w) else None)"
| "step (TimerFires i) w =
     (case find (\<lambda>t. fst t = i) (timers w) of
        None \<Rightarrow> None
      | Some t \<Rightarrow> if fst (snd t) \<le> clock w then Some (timerFires t w) else None)"
| "step (SuggestionsSettled i r) w =
     (if i < length (suggestFetches w) then Some (suggestionsSettled i r w) else None)"
| "step (SelectSuggestion s) w =
     (if showSuggestions w \<and> s \<in> set (suggestions w) then Some (handleSelectSuggestion s w)
      else None)"
| "step (ImportLoaded content) w = Some (importDiet content w)"
| "step ClickExport w = Some w"
| "step (Tick n) w = Some (w\<lparr>clock := clock w + n\<rparr>)"

fun run :: "event list \<Rightarrow> app \<Rightarrow> app option" where
  "run [] w = Some w"
| "run (e # es) w = (case step e w of None \<Rightarrow> None | Some w' \<Rightarrow> run es w')"

inductive reachable :: "app \<Rightarrow> bool" where
  reachable_mount: "reachable mount"
| reachable_step: "reachable w \<Longrightarrow> step e w = Some w' \<Longrightarrow> reachable w'"

section \<open>The terms of the specification\<close>

text \<open>
  An entry of an import file with all six fields present and of the right type: the
  value of the key \<open>name\<close> is a string and the values of the five other keys are numbers.
\<close>

fun field :: "json \<Rightarrow> jsstring \<Rightarrow> json option" where
  "field (JObject kvs) k = map_of (rev kvs) k"
| "field j k = None"

fun is_text :: "json option \<Rightarrow> bool" where
  "is_text (Some (JString s)) = True"
| "is_text j = False"

fun is_numeric :: "json option \<Rightarrow> bool" where
  "is_numeric (Some (JNumber r)) = True"
| "is_numeric j = False"

definition well_typed_entry :: "json \<Rightarrow> bool" where
  "well_typed_entry j \<longleftrightarrow>
     is_text (field j (js ''name'')) \<and> is_numeric (field j (js ''calories''))
     \<and> is_numeric (field j (js ''protein'')) \<and> is_numeric (field j (js ''carbs''))
     \<and> is_numeric (field j (js ''fat'')) \<and> is_numeric (field j (js ''weight''))"

text \<open>
  A finite number, that is neither \<open>NaN\<close> nor an infinity and within the range of the
  finite binary64 values, and an item with five such.
\<close>

fun is_finite :: "jsnum \<Rightarrow> bool" where
  "is_finite (Fin r) = (\<bar>r\<bar> < overflow_threshold)"
| "is_finite n = False"

definition finite_item :: "FoodItem \<Rightarrow> bool" where
  "finite_item f \<longleftrightarrow>
     is_finite (calories f) \<and> is_finite (protein f) \<and> is_finite (carbs f)
     \<and> is_finite (fat f) \<and> is_finite (weight f)"

text \<open>A text that is a JSON array whose entries all have the six fields, rightly typed.\<close>

fun accepted :: "jstext \<Rightarrow> bool" where
  "accepted (Doc (JArray xs)) = list_all well_typed_entry xs"
| "accepted c = False"



text \<open>A finite number with at most one decimal place, and an item with four such.\<close>

fun one_decimal :: "jsnum \<Rightarrow> bool" where
  "one_decimal (Fin r) = (of_int \<lfloor>r * 10\<rfloor> = r * 10)"
| "one_decimal n = False"


section \<open>Invariants and views of the transition system\<close>

text \<open>
  At most one debounce timer is pending; it is the timer of the last effect run, and its
  callback holds the current \<^verbatim>\<open>foodName\<close>.
\<close>

definition timer_inv :: "app \<Rightarrow> bool" where
  "timer_inv w \<longleftrightarrow>
     length (timers w) \<le> 1
     \<and> list_all (\<lambda>t. fst t = effectTimer w \<and> snd (snd t) = foodName w) (timers w)"


text \<open>
  An event that is not a change of the query by the user, and the time that the \<open>Tick\<close>
  events of a list let pass.
\<close>

fun quiet :: "event \<Rightarrow> bool" where
  "quiet (ChangeFoodName v) = False"
| "quiet (SelectSuggestion s) = False"
| "quiet e = True"

fun ticks :: "event list \<Rightarrow> nat" where
  "ticks [] = 0"
| "ticks (Tick n # es) = n + ticks es"
| "ticks (e # es) = ticks es"

text \<open>
  Inside the debounce window opened at time \<open>c0\<close>: no suggestion request has been sent
  since (the history is still \<open>h\<close>), and no pending timer can fire before \<open>c0 + 300\<close>.
\<close>

definition window_inv :: "nat \<Rightarrow> jsstring list \<Rightarrow> app \<Rightarrow> bool" where
  "window_inv c0 h w \<longleftrightarrow>
     timer_inv w \<and> issued w = h \<and> c0 \<le> clock w
     \<and> list_all (\<lambda>t. c0 + 300 \<le> fst (snd t)) (timers w)"

text \<open>
  After the last change of the query to \<open>q\<close>: the query is \<open>q\<close>, or empty once an added
  food has cleared it; either nothing has been sent since, or one request for \<open>q\<close> has
  and no timer is left that could send another.
\<close>

definition settled_inv :: "jsstring \<Rightarrow> jsstring list \<Rightarrow> app \<Rightarrow> bool" where
  "settled_inv q h w \<longleftrightarrow>
     timer_inv w \<and> (foodName w = q \<or> foodName w = [])
     \<and> (issued w = h
         \<or> (issued w = h @ [q] \<and> list_all (\<lambda>t. snd (snd t) = []) (timers w)))"

text \<open>What the suggestion list shows, for which query, and the requests still out.\<close>

definition suggestion_view :: "app \<Rightarrow> jsstring \<times> jsstring list \<times> jsstring list" where
  "suggestion_view w = (foodName w, suggestions w, suggestFetches w)"

section \<open>Properties\<close>

lemma js_Nil_iff: "js s = [] \<longleftrightarrow> s = []"
  by (simp add: js_def)

text \<open>
  C8. When the name is blank after trimming (the empty name included), \<open>handleAddFood\<close>
  only sets the error message to a non-empty text: no nutrition request is sent, and the
  ledger and the in-flight flag are as before.
\<close>

theorem blank_name_rejected:
  "trim (foodName w) = [] \<Longrightarrow>
     handleAddFood w = w\<lparr>error := js ''Please enter a food name''\<rparr>
     \<and> error (handleAddFood w) \<noteq> []
     \<and> nutritionFetches (handleAddFood w) = nutritionFetches w
     \<and> foodItems (handleAddFood w) = foodItems w
     \<and> isLoading (handleAddFood w) = isLoading w"
  by (simp add: handleAddFood_def js_Nil_iff)

theorem blank_name_rejected_witness:
  "trim (foodName (mount\<lparr>foodName := js ''  ''\<rparr>)) = []
   \<and> handleAddFood (mount\<lparr>foodName := js ''  ''\<rparr>)
       = mount\<lparr>foodName := js ''  '', error := js ''Please enter a food name''\<rparr>
   \<and> nutritionFetches (handleAddFood (mount\<lparr>foodName := js ''  ''\<rparr>)) = []"
  using blank_name_rejected [of "mount\<lparr>foodName := js ''  ''\<rparr>"]
  by (simp add: trim_def js_def is_ws_def mount_def runEffect_def)

subsection \<open>A failed nutrition lookup\<close>

lemma nutritionSettled_failure:
  "foodItems (nutritionSettled i (Inl e) w) = foodItems w
   \<and> error (nutritionSettled i (Inl e) w) \<noteq> []
   \<and> \<not> isLoading (nutritionSettled i (Inl e) w)
   \<and> nutritionFetches (nutritionSettled i (Inl e) w) = remove_nth i (nutritionFetches w)"
  by (simp add: nutritionSettled_def Let_def js_Nil_iff)

lemma remove_nth_length_append: "remove_nth (length xs) (xs @ [x]) = xs"
  by (simp add: remove_nth_def)

text \<open>
  C4. A click on Add with a name that is not blank sends a nutrition request. When that
  request fails, for whichever reason, the failure is handled: afterwards the ledger and
  its totals are those of before the click, the error message is not empty, the in-flight
  flag is false and no request is left.
\<close>

theorem lookup_failure_keeps_ledger:
  assumes "step ClickAdd w = Some w1" and "trim (foodName w) \<noteq> []"
  shows "step (NutritionSettled (length (nutritionFetches w)) (Inl e)) w1
           = Some (nutritionSettled (length (nutritionFetches w)) (Inl e) w1)
       \<and> foodItems (nutritionSettled (length (nutritionFetches w)) (Inl e) w1) = foodItems w
       \<and> totals (foodItems (nutritionSettled (length (nutritionFetches w)) (Inl e) w1))
           = totals (foodItems w)
       \<and> error (nutritionSettled (length (nutritionFetches w)) (Inl e) w1) \<noteq> []
       \<and> \<not> isLoading (nutritionSettled (length (nutritionFetches w)) (Inl e) w1)
       \<and> nutritionFetches (nutritionSettled (length (nutritionFetches w)) (Inl e) w1)
           = nutritionFetches w"
proof -
  from assms have w1: "w1 = handleAddFood w"
    by (simp split: if_splits)
  with assms(2) have nf: "nutritionFetches w1 = nutritionFetches w @ [foodItems w]"
    and fi: "foodItems w1 = foodItems w"
    by (simp_all add: handleAddFood_def)
  show ?thesis
    using nutritionSettled_failure [of "length (nutritionFetches w)" e w1]
    by (simp add: nf fi remove_nth_length_append)
qed

theorem lookup_failure_keeps_ledger_witness:
  "step ClickAdd (mount\<lparr>foodName := js ''egg''\<rparr>)
     = Some (handleAddFood (mount\<lparr>foodName := js ''egg''\<rparr>))
   \<and> trim (foodName (mount\<lparr>foodName := js ''egg''\<rparr>)) \<noteq> []
   \<and> step (NutritionSettled 0 (Inl NetworkError)) (handleAddFood (mount\<lparr>foodName := js ''egg''\<rparr>))
       = Some (mount\<lparr>foodName := js ''egg'',
                 error := js ''Failed to fetch nutrition information. Please try again.''\<rparr>)"
proof -
  have a: "step ClickAdd (mount\<lparr>foodName := js ''egg''\<rparr>)
             = Some (handleAddFood (mount\<lparr>foodName := js ''egg''\<rparr>))"
    by (simp add: mount_def runEffect_def)
  have b: "trim (foodName (mount\<lparr>foodName := js ''egg''\<rparr>)) \<noteq> []"
    by (simp add: trim_def js_def is_ws_def)
  show ?thesis
    using lookup_failure_keeps_ledger [OF a b, of NetworkError] a b
    by (simp add: mount_def runEffect_def handleAddFood_def nutritionSettled_def remove_nth_def)
qed

subsection \<open>Import\<close>

lemma map_of_value_of:
  "map_of (rev (map (map_prod id value_of) kvs)) k = map_option value_of (map_of (rev kvs) k)"
proof -
  have "map_of (map (map_prod id value_of) xs) k = map_option value_of (map_of xs k)" for xs
    by (induction xs) auto
  then show ?thesis by (simp add: rev_map)
qed

lemma has_type_string:
  "has_type (value_of j) k T_string =
     (if j = JNull then Inl TypeError else Inr (is_text (field j k)))"
proof (cases j)
  case (JObject kvs)
  show ?thesis
  proof (cases "map_of (rev kvs) k")
    case None
    then show ?thesis by (simp add: JObject has_type_def map_of_value_of)
  next
    case (Some v)
    then show ?thesis by (cases v) (simp_all add: JObject has_type_def map_of_value_of)
  qed
qed (simp_all add: has_type_def)

lemma has_type_number:
  "has_type (value_of j) k T_number =
     (if j = JNull then Inl TypeError else Inr (is_numeric (field j k)))"
proof (cases j)
  case (JObject kvs)
  show ?thesis
  proof (cases "map_of (rev kvs) k")
    case None
    then show ?thesis by (simp add: JObject has_type_def map_of_value_of)
  next
    case (Some v)
    then show ?thesis by (cases v) (simp_all add: JObject has_type_def map_of_value_of)
  qed
qed (simp_all add: has_type_def)

lemma and_then_Inr: "and_then (Inr a) (Inr b) = Inr (a \<and> b)"
  by (cases a) simp_all

lemma isValid_item_value_of:
  "isValid_item (value_of j) = (if j = JNull then Inl TypeError else Inr (well_typed_entry j))"
  by (simp add: isValid_item_def has_type_string has_type_number and_then_Inr
      well_typed_entry_def)

lemma every_all:
  "\<forall>x\<in>set xs. p x = Inr True \<Longrightarrow> every p xs = Inr True"
  by (induction xs) simp_all

lemma every_first_bad:
  "\<forall>x\<in>set pre. p x = Inr True \<Longrightarrow> p bad \<noteq> Inr True \<Longrightarrow>
     every p (pre @ bad # post) = p bad"
proof (induction pre)
  case Nil
  show ?case
  proof (cases "p bad")
    case (Inl e) then show ?thesis by simp
  next
    case (Inr b) with Nil show ?thesis by (cases b) simp_all
  qed
next
  case (Cons a pre) then show ?case by simp
qed

lemma well_typed_not_null: "well_typed_entry j \<Longrightarrow> j \<noteq> JNull"
  by (auto simp: well_typed_entry_def)

lemma isValid_item_well_typed: "well_typed_entry j \<Longrightarrow> isValid_item (value_of j) = Inr True"
  using well_typed_not_null [of j] by (simp add: isValid_item_value_of)

lemma importDiet_well_typed:
  assumes "\<forall>j\<in>set xs. well_typed_entry j"
  shows "importDiet (Doc (JArray xs)) s = s\<lparr>foodItems := map (as_FoodItem \<circ> value_of) xs\<rparr>"
proof -
  have "every isValid_item (map value_of xs) = Inr True"
    using assms by (intro every_all) (simp add: isValid_item_well_typed)
  then show ?thesis by (simp add: importDiet_def)
qed

text \<open>
  C9. The validation of an import looks only at the presence and the \<^verbatim>\<open>typeof\<close> of the
  six fields. A file that is a JSON array whose entries all have a string \<open>name\<close> and
  numbers for the five other fields is accepted and replaces the ledger, whatever the
  string and the numbers: the witness imports an entry with the empty name and five
  negative numbers.
\<close>

theorem import_checks_types_only:
  "\<forall>j\<in>set xs. well_typed_entry j \<Longrightarrow>
     importDiet (Doc (JArray xs)) s = s\<lparr>foodItems := map (as_FoodItem \<circ> value_of) xs\<rparr>
     \<and> error (importDiet (Doc (JArray xs)) s) = error s"
  by (simp add: importDiet_well_typed)

theorem import_checks_types_only_witness:
  "well_typed_entry (JObject [(js ''name'', JString []), (js ''calories'', JNumber (- 5)),
                      (js ''protein'', JNumber (- 1)), (js ''carbs'', JNumber (- 2)),
                      (js ''fat'', JNumber (- 3)), (js ''weight'', JNumber (- 4))])
   \<and> importDiet (Doc (JArray [JObject [(js ''name'', JString []), (js ''calories'', JNumber (- 5)),
                      (js ''protein'', JNumber (- 1)), (js ''carbs'', JNumber (- 2)),
                      (js ''fat'', JNumber (- 3)), (js ''weight'', JNumber (- 4))]])) mount
     = mount\<lparr>foodItems := [\<lparr>calories = Fin (- 5), protein = Fin (- 1), carbs = Fin (- 2),
                              fat = Fin (- 3), weight = Fin (- 4), name = []\<rparr>]\<rparr>"
proof -
  let ?j = "JObject [(js ''name'', JString []), (js ''calories'', JNumber (- 5)),
                      (js ''protein'', JNumber (- 1)), (js ''carbs'', JNumber (- 2)),
                      (js ''fat'', JNumber (- 3)), (js ''weight'', JNumber (- 4))]"
  have h: "\<forall>j\<in>set [?j]. well_typed_entry j"
    by (simp add: well_typed_entry_def js_def)
  show ?thesis
    using h import_checks_types_only [OF h, of mount]
    by (simp add: as_FoodItem_def js_def number_value_def overflow_threshold_def)
qed

subsection \<open>Export, then import\<close>

lemma is_numeric_number_json: "is_finite n \<Longrightarrow> is_numeric (Some (number_json n))"
  by (cases n) simp_all

lemma well_typed_item_json: "finite_item f \<Longrightarrow> well_typed_entry (item_json f)"
  by (simp add: well_typed_entry_def item_json_def finite_item_def js_def
      is_numeric_number_json)

lemma number_of_number_json:
  "is_finite n \<Longrightarrow> number_of (Inr (value_of (number_json n))) = n"
  by (cases n) (auto simp: number_value_def)

lemma as_FoodItem_item_json:
  "finite_item f \<Longrightarrow> as_FoodItem (value_of (item_json f)) = f"
  by (simp add: as_FoodItem_def item_json_def finite_item_def js_def number_of_number_json)

text \<open>
  C1. Importing the text that \<open>exportDiet\<close> writes for a ledger succeeds and gives that
  ledger, in the same order, when the five numbers of every item are finite. It is not so
  for every list of items: \<open>NaN\<close> and the infinities are numbers for \<^verbatim>\<open>typeof\<close>, but
  \<^verbatim>\<open>JSON.stringify\<close> writes them \<^verbatim>\<open>null\<close>, which the validation of the import rejects.
  An infinity comes into the ledger by the import of a file with the literal \<^verbatim>\<open>2e308\<close>.
\<close>

theorem export_import_round_trip:
  assumes "\<forall>f\<in>set (foodItems s). finite_item f"
  shows "importDiet (exportDiet s) s' = s'\<lparr>foodItems := foodItems s\<rparr>"
proof -
  have wt: "\<forall>j\<in>set (map item_json (foodItems s)). well_typed_entry j"
    using assms by (simp add: well_typed_item_json)
  have "map (as_FoodItem \<circ> value_of) (map item_json (foodItems s)) = foodItems s"
    using assms by (simp add: as_FoodItem_item_json map_idI)
  with importDiet_well_typed [OF wt, of s'] show ?thesis
    by (simp add: exportDiet_def JSON_stringify_def)
qed

theorem export_import_round_trip_witness:
  "finite_item \<lparr>calories = Fin 105, protein = Fin (13 / 10), carbs = Fin 27, fat = Fin (2 / 5),
                 weight = Fin 118, name = js ''Banana''\<rparr>
   \<and> importDiet (exportDiet (mount\<lparr>foodItems :=
        [\<lparr>calories = Fin 105, protein = Fin (13 / 10), carbs = Fin 27, fat = Fin (2 / 5),
          weight = Fin 118, name = js ''Banana''\<rparr>]\<rparr>)) mount
     = mount\<lparr>foodItems :=
        [\<lparr>calories = Fin 105, protein = Fin (13 / 10), carbs = Fin 27, fat = Fin (2 / 5),
          weight = Fin 118, name = js ''Banana''\<rparr>]\<rparr>"
proof -
  let ?s = "mount\<lparr>foodItems :=
        [\<lparr>calories = Fin 105, protein = Fin (13 / 10), carbs = Fin 27, fat = Fin (2 / 5),
          weight = Fin 118, name = js ''Banana''\<rparr>]\<rparr>"
  have h: "\<forall>f\<in>set (foodItems ?s). finite_item f"
    by (simp add: finite_item_def overflow_threshold_def)
  show ?thesis
    using h export_import_round_trip [OF h, of mount] by simp
qed

theorem export_import_infinity_counterexample:
  "foodItems (importDiet (Doc (JArray [JObject
        [(js ''name'', JString (js ''x'')), (js ''calories'', JNumber (2 * 10 ^ 308)),
         (js ''protein'', JNumber 0), (js ''carbs'', JNumber 0), (js ''fat'', JNumber 0),
         (js ''weight'', JNumber 0)]])) mount)
     = [\<lparr>calories = PInf, protein = Fin 0, carbs = Fin 0, fat = Fin 0, weight = Fin 0,
          name = js ''x''\<rparr>]
   \<and> importDiet (exportDiet (mount\<lparr>foodItems :=
        [\<lparr>calories = PInf, protein = Fin 0, carbs = Fin 0, fat = Fin 0, weight = Fin 0,
          name = js ''x''\<rparr>]\<rparr>)) mount
     = mount\<lparr>error := js ''Invalid diet plan format''\<rparr>
   \<and> foodItems (importDiet (exportDiet (mount\<lparr>foodItems :=
        [\<lparr>calories = PInf, protein = Fin 0, carbs = Fin 0, fat = Fin 0, weight = Fin 0,
          name = js ''x''\<rparr>]\<rparr>)) mount)
     \<noteq> [\<lparr>calories = PInf, protein = Fin 0, carbs = Fin 0, fat = Fin 0, weight = Fin 0,
          name = js ''x''\<rparr>]"
  by (simp add: exportDiet_def JSON_stringify_def item_json_def importDiet_def
      isValid_item_def has_type_def as_FoodItem_def js_def mount_def runEffect_def
      number_value_def overflow_threshold_def)

subsection \<open>A rejected import\<close>

lemma isValid_item_first_bad:
  assumes "\<forall>j\<in>set pre. well_typed_entry j" and "\<not> well_typed_entry bad"
  shows "every isValid_item (map value_of (pre @ bad # post))
         = (if bad = JNull then Inl TypeError else Inr False)"
proof -
  have "every isValid_item (map value_of pre @ value_of bad # map value_of post)
        = isValid_item (value_of bad)"
    using assms by (intro every_first_bad) (auto simp: isValid_item_value_of dest: well_typed_not_null)
  with assms(2) show ?thesis by (simp add: isValid_item_value_of)
qed

lemma importDiet_first_bad:
  assumes "\<forall>j\<in>set pre. well_typed_entry j" and "\<not> well_typed_entry bad"
  shows "importDiet (Doc (JArray (pre @ bad # post))) s =
           (if bad = JNull
            then s\<lparr>error := js ''Failed to import diet plan. Please check the file format.''\<rparr>
            else s\<lparr>error := js ''Invalid diet plan format''\<rparr>)"
  using isValid_item_first_bad [OF assms, of post] by (simp add: importDiet_def)

lemma importDiet_not_array:
  "\<forall>xs. j \<noteq> JArray xs \<Longrightarrow>
     importDiet (Doc j) s
       = s\<lparr>error := js ''Failed to import diet plan. Please check the file format.''\<rparr>"
  by (cases j) (simp_all add: importDiet_def)

lemma importDiet_rejected:
  assumes "\<not> accepted c"
  shows "importDiet c s = s\<lparr>error := js ''Failed to import diet plan. Please check the file format.''\<rparr>
       \<or> importDiet c s = s\<lparr>error := js ''Invalid diet plan format''\<rparr>"
proof (cases c)
  case Malformed
  then show ?thesis by (simp add: importDiet_def)
next
  case (Doc j)
  show ?thesis
  proof (cases "\<exists>xs. j = JArray xs")
    case False
    then show ?thesis using importDiet_not_array [of j s] by (simp add: Doc)
  next
    case True
    then obtain xs where j: "j = JArray xs" by blast
    with assms Doc have "\<exists>x\<in>set xs. \<not> well_typed_entry x"
      by (simp add: list_all_iff)
    then obtain pre bad post where xs: "xs = pre @ bad # post"
      and bad: "\<not> well_typed_entry bad" and pre: "\<forall>y\<in>set pre. \<not> \<not> well_typed_entry y"
      using split_list_first_prop [of xs "\<lambda>x. \<not> well_typed_entry x"] by blast
    from pre have "\<forall>y\<in>set pre. well_typed_entry y" by simp
    from importDiet_first_bad [OF this bad, of post s] show ?thesis
      by (simp add: Doc j xs split: if_splits)
  qed
qed





subsection \<open>The error message\<close>

lemma accepted_import:
  assumes "accepted c"
  shows "importDiet c s = s\<lparr>foodItems := foodItems (importDiet c s)\<rparr>"
proof -
  from assms obtain xs where c: "c = Doc (JArray xs)" and "list_all well_typed_entry xs"
    by (cases c rule: accepted.cases) simp_all
  then have "\<forall>j\<in>set xs. well_typed_entry j" by (simp add: list_all_iff)
  from importDiet_well_typed [OF this, of s] show ?thesis by (simp add: c)
qed

lemma importDiet_error_cleared: "error (importDiet c s) = [] \<Longrightarrow> error s = []"
proof (cases "accepted c")
  case True
  assume "error (importDiet c s) = []"
  with accepted_import [OF True, of s] show ?thesis
    by (metis app_state.select_convs(6) app_state.surjective app_state.update_convs(4))
next
  case False
  assume "error (importDiet c s) = []"
  with importDiet_rejected [OF False, of s] show ?thesis
    by (auto simp: js_Nil_iff)
qed

lemma error_setFoodName: "error (setFoodName v w) = error w"
  by (simp add: setFoodName_def runEffect_def)

lemma error_timerFires: "error (timerFires t w) = error w"
  by (simp add: timerFires_def fetchSuggestions_def Let_def)

lemma error_suggestionsSettled: "error (suggestionsSettled i r w) = error w"
  by (cases r) (simp_all add: suggestionsSettled_def Let_def)

lemma error_nutritionSettled:
  "error (nutritionSettled i r w) = [] \<Longrightarrow> error w = []"
  by (cases r) (simp_all add: nutritionSettled_def Let_def error_setFoodName js_Nil_iff)

lemma error_handleSelectSuggestion: "error (handleSelectSuggestion x w) = error w"
  by (simp add: handleSelectSuggestion_def error_setFoodName)

lemma step_clears_error:
  assumes "step e w = Some w'" and "error w \<noteq> []" and "error w' = []"
  shows "e = ClickAdd \<and> trim (foodName w) \<noteq> []"
proof (cases e)
  case ClickAdd
  with assms show ?thesis
    by (auto simp: handleAddFood_def js_Nil_iff split: if_splits)
next
  case (TimerFires i)
  with assms show ?thesis
    by (auto simp: error_timerFires split: option.splits if_splits)
next
  case (ImportLoaded c)
  with assms show ?thesis
    using importDiet_error_cleared [of c w] by auto
next
  case (NutritionSettled i r)
  with assms show ?thesis
    using error_nutritionSettled [of i r w] by (auto split: if_splits)
qed (use assms in \<open>auto simp: error_setFoodName error_suggestionsSettled
      error_handleSelectSuggestion split: if_splits\<close>)

text \<open>
  C10. An accepted import changes \<open>foodItems\<close> and nothing else, so an error message set
  before it is still there after it. The only event that turns a non-empty error message
  into the empty one is a click on Add with a name that is not blank, which starts
  \<^verbatim>\<open>fetchNutritionInfo\<close>.
\<close>

theorem import_keeps_error:
  "(accepted c \<longrightarrow>
      importDiet c s = s\<lparr>foodItems := foodItems (importDiet c s)\<rparr>
      \<and> error (importDiet c s) = error s)
   \<and> (step e w = Some w' \<and> error w \<noteq> [] \<and> error w' = [] \<longrightarrow>
        e = ClickAdd \<and> trim (foodName w) \<noteq> [])"
proof (intro conjI impI)
  assume a: "accepted c"
  show "importDiet c s = s\<lparr>foodItems := foodItems (importDiet c s)\<rparr>"
    by (rule accepted_import [OF a])
  have "error (importDiet c s) = error (s\<lparr>foodItems := foodItems (importDiet c s)\<rparr>)"
    using accepted_import [OF a, of s] by simp
  then show "error (importDiet c s) = error s" by simp
next
  assume "step e w = Some w' \<and> error w \<noteq> [] \<and> error w' = []"
  then show "e = ClickAdd" and "trim (foodName w) \<noteq> []"
    using step_clears_error [of e w w'] by simp_all
qed

theorem import_keeps_error_witness:
  "accepted (Doc (JArray []))
   \<and> error (importDiet (Doc (JArray [])) (importDiet Malformed mount))
       = js ''Failed to import diet plan. Please check the file format.''
   \<and> step ClickAdd (importDiet Malformed (mount\<lparr>foodName := js ''egg''\<rparr>))
       = Some (handleAddFood (importDiet Malformed (mount\<lparr>foodName := js ''egg''\<rparr>)))
   \<and> error (importDiet Malformed (mount\<lparr>foodName := js ''egg''\<rparr>)) \<noteq> []
   \<and> error (handleAddFood (importDiet Malformed (mount\<lparr>foodName := js ''egg''\<rparr>))) = []
   \<and> trim (foodName (importDiet Malformed (mount\<lparr>foodName := js ''egg''\<rparr>))) \<noteq> []"
  using import_keeps_error [of "Doc (JArray [])" "importDiet Malformed mount" ClickAdd
      "importDiet Malformed (mount\<lparr>foodName := js ''egg''\<rparr>)"
      "handleAddFood (importDiet Malformed (mount\<lparr>foodName := js ''egg''\<rparr>))"]
  by (simp add: importDiet_def handleAddFood_def mount_def runEffect_def trim_def js_def
      is_ws_def)

subsection \<open>Totals\<close>



lemma one_decimal_tenth: "one_decimal (Fin (of_int k / 10))"
  by simp













subsection \<open>What each callback leaves unchanged\<close>

lemma importDiet_frame:
  "nutritionFetches (importDiet c w) = nutritionFetches w"
  "isLoading (importDiet c w) = isLoading w"
  "timers (importDiet c w) = timers w"
  "effectTimer (importDiet c w) = effectTimer w"
  "foodName (importDiet c w) = foodName w"
  "issued (importDiet c w) = issued w"
  "clock (importDiet c w) = clock w"
  "suggestFetches (importDiet c w) = suggestFetches w"
  by (simp_all add: importDiet_def split: sum.splits bool.splits)

lemma setFoodName_frame:
  "nutritionFetches (setFoodName v w) = nutritionFetches w"
  "isLoading (setFoodName v w) = isLoading w"
  "issued (setFoodName v w) = issued w"
  "clock (setFoodName v w) = clock w"
  "suggestFetches (setFoodName v w) = suggestFetches w"
  "foodName (setFoodName v w) = v"
  by (simp_all add: setFoodName_def runEffect_def)

lemma timerFires_frame:
  "nutritionFetches (timerFires t w) = nutritionFetches w"
  "isLoading (timerFires t w) = isLoading w"
  "clock (timerFires t w) = clock w"
  "foodName (timerFires t w) = foodName w"
  "effectTimer (timerFires t w) = effectTimer w"
  "timers (timerFires t w) = removeAll t (timers w)"
  by (simp_all add: timerFires_def fetchSuggestions_def Let_def)

lemma suggestionsSettled_frame:
  "nutritionFetches (suggestionsSettled i r w) = nutritionFetches w"
  "isLoading (suggestionsSettled i r w) = isLoading w"
  "clock (suggestionsSettled i r w) = clock w"
  "foodName (suggestionsSettled i r w) = foodName w"
  "effectTimer (suggestionsSettled i r w) = effectTimer w"
  "timers (suggestionsSettled i r w) = timers w"
  "issued (suggestionsSettled i r w) = issued w"
  by (cases r; simp add: suggestionsSettled_def Let_def)+

lemma handleAddFood_frame:
  "clock (handleAddFood w) = clock w"
  "foodName (handleAddFood w) = foodName w"
  "effectTimer (handleAddFood w) = effectTimer w"
  "timers (handleAddFood w) = timers w"
  "issued (handleAddFood w) = issued w"
  by (simp_all add: handleAddFood_def)

subsection \<open>One nutrition lookup at a time\<close>




lemma reachable_run: "reachable w \<Longrightarrow> run es w = Some w' \<Longrightarrow> reachable w'"
proof (induction es arbitrary: w)
  case Nil
  then show ?case by simp
next
  case (Cons e es)
  then show ?case
    by (cases "step e w") (auto intro: reachable_step)
qed




subsection \<open>The debounce timer\<close>

lemma timer_inv_runEffect:
  assumes "list_all (\<lambda>t. fst t = effectTimer w) (timers w)"
  shows "timers (runEffect w) = [(nextTimer w, clock w + 300, foodName w)]"
    and "effectTimer (runEffect w) = nextTimer w"
proof -
  from assms have "filter (\<lambda>t. fst t \<noteq> effectTimer w) (timers w) = []"
    by (simp add: list_all_iff filter_empty_conv)
  then show "timers (runEffect w) = [(nextTimer w, clock w + 300, foodName w)]"
    by (simp add: runEffect_def)
  show "effectTimer (runEffect w) = nextTimer w"
    by (simp add: runEffect_def)
qed

lemma timers_setFoodName:
  assumes "timer_inv w" and "v \<noteq> foodName w"
  shows "timers (setFoodName v w) = [(nextTimer w, clock w + 300, v)]"
    and "effectTimer (setFoodName v w) = nextTimer w"
proof -
  from assms(1) have "list_all (\<lambda>t. fst t = effectTimer (w\<lparr>foodName := v\<rparr>)) (timers (w\<lparr>foodName := v\<rparr>))"
    by (simp add: timer_inv_def list_all_iff)
  from timer_inv_runEffect [OF this] assms(2)
  show "timers (setFoodName v w) = [(nextTimer w, clock w + 300, v)]"
    and "effectTimer (setFoodName v w) = nextTimer w"
    by (simp_all add: setFoodName_def)
qed

lemma timer_inv_setFoodName:
  assumes "timer_inv w"
  shows "timer_inv (setFoodName v w)"
proof (cases "v = foodName w")
  case True
  with assms show ?thesis by (simp add: setFoodName_def)
next
  case False
  from timers_setFoodName [OF assms False] show ?thesis
    by (simp add: timer_inv_def setFoodName_frame)
qed

lemma timer_inv_frame:
  assumes "timer_inv w" and "timers w' = timers w" and "effectTimer w' = effectTimer w"
    and "foodName w' = foodName w"
  shows "timer_inv w'"
  using assms by (simp add: timer_inv_def)

lemma find_singleton:
  assumes "length ts \<le> 1" and "find p ts = Some t"
  shows "ts = [t]"
proof (cases ts)
  case Nil
  with assms show ?thesis by simp
next
  case (Cons a as)
  with assms have "as = []" by simp
  with Cons assms show ?thesis by (simp split: if_splits)
qed

lemma timer_inv_timerFires:
  assumes "timer_inv w" and "find p (timers w) = Some t"
  shows "timers (timerFires t w) = []" and "timer_inv (timerFires t w)"
proof -
  from assms have "timers w = [t]"
    by (auto simp: timer_inv_def intro: find_singleton)
  then show "timers (timerFires t w) = []"
    by (simp add: timerFires_frame)
  then show "timer_inv (timerFires t w)"
    by (simp add: timer_inv_def)
qed

lemma timer_inv_step:
  assumes "timer_inv w" and "step e w = Some w'"
  shows "timer_inv w'"
proof (cases e)
  case (ChangeFoodName v)
  with assms show ?thesis by (auto intro: timer_inv_setFoodName)
next
  case (SelectSuggestion s)
  have "timer_inv (w\<lparr>suggestions := [], showSuggestions := False\<rparr>)"
    using assms(1) by (simp add: timer_inv_def)
  with assms SelectSuggestion show ?thesis
    by (auto simp: handleSelectSuggestion_def intro: timer_inv_setFoodName split: if_splits)
next
  case (TimerFires i)
  with assms show ?thesis
    by (auto intro: timer_inv_timerFires split: option.splits if_splits)
next
  case (NutritionSettled i r)
  show ?thesis
  proof (cases r)
    case (Inl f)
    with assms NutritionSettled show ?thesis
      by (auto simp: timer_inv_def nutritionSettled_def Let_def split: if_splits)
  next
    case (Inr info)
    have "timer_inv (w\<lparr>nutritionFetches := remove_nth i (nutritionFetches w),
        isLoading := False, foodItems := nutritionFetches w ! i @ [info],
        suggestions := [], showSuggestions := False\<rparr>)"
      using assms(1) by (simp add: timer_inv_def)
    with assms NutritionSettled Inr show ?thesis
      by (auto simp: nutritionSettled_def Let_def intro: timer_inv_setFoodName split: if_splits)
  qed
next
  case (SuggestionsSettled i r)
  with assms show ?thesis
    by (auto simp: suggestionsSettled_frame intro: timer_inv_frame split: if_splits)
next
  case (ImportLoaded c)
  with assms show ?thesis
    by (auto simp: importDiet_frame intro: timer_inv_frame)
next
  case ClickAdd
  with assms show ?thesis
    by (auto simp: handleAddFood_frame intro: timer_inv_frame split: if_splits)
qed (use assms in \<open>auto simp: timer_inv_def\<close>)

lemma timer_inv_mount: "timer_inv mount"
  by (simp add: timer_inv_def mount_def runEffect_def)

lemma reachable_timer_inv: "reachable w \<Longrightarrow> timer_inv w"
  by (induction rule: reachable.induct) (auto intro: timer_inv_mount timer_inv_step)

subsection \<open>Inside the debounce window\<close>

lemma clock_step: "step e w = Some w' \<Longrightarrow> clock w' = clock w + ticks [e]"
proof (cases e)
  case (NutritionSettled i r)
  assume "step e w = Some w'"
  with NutritionSettled show ?thesis
    by (cases r) (auto simp: nutritionSettled_def Let_def setFoodName_frame split: if_splits)
qed (auto simp: setFoodName_frame handleAddFood_frame timerFires_frame
      suggestionsSettled_frame handleSelectSuggestion_def importDiet_frame
      split: if_splits option.splits)

lemma window_inv_setFoodName:
  assumes "window_inv c0 h w"
  shows "window_inv c0 h (setFoodName v w)"
proof (cases "v = foodName w")
  case True
  with assms show ?thesis by (simp add: setFoodName_def)
next
  case False
  from assms have t: "timer_inv w" by (simp add: window_inv_def)
  from timers_setFoodName(1) [OF t False] timer_inv_setFoodName [OF t, of v] assms
  show ?thesis
    by (simp add: window_inv_def setFoodName_frame)
qed

lemma window_inv_frame:
  assumes "window_inv c0 h w" and "timers w' = timers w" and "effectTimer w' = effectTimer w"
    and "foodName w' = foodName w" and "issued w' = issued w" and "clock w \<le> clock w'"
  shows "window_inv c0 h w'"
  using assms by (simp add: window_inv_def timer_inv_def)

lemma window_inv_step:
  assumes "window_inv c0 h w" and "quiet e" and "clock w + ticks [e] < c0 + 300"
    and "step e w = Some w'"
  shows "window_inv c0 h w'"
proof (cases e)
  case (TimerFires i)
  with assms(4) obtain t where f: "find (\<lambda>t. fst t = i) (timers w) = Some t"
    and d: "fst (snd t) \<le> clock w"
    by (auto split: option.splits if_splits)
  from f have "t \<in> set (timers w)"
    by (auto simp: find_Some_iff)
  with assms(1) have "c0 + 300 \<le> fst (snd t)"
    by (simp add: window_inv_def list_all_iff)
  with d assms(3) show ?thesis by simp
next
  case (NutritionSettled i r)
  show ?thesis
  proof (cases r)
    case (Inl f)
    with assms NutritionSettled show ?thesis
      by (auto simp: nutritionSettled_def Let_def intro: window_inv_frame split: if_splits)
  next
    case (Inr info)
    have "window_inv c0 h (w\<lparr>nutritionFetches := remove_nth i (nutritionFetches w),
        isLoading := False, foodItems := nutritionFetches w ! i @ [info],
        suggestions := [], showSuggestions := False\<rparr>)"
      using assms(1) by (simp add: window_inv_def timer_inv_def)
    with assms NutritionSettled Inr show ?thesis
      by (auto simp: nutritionSettled_def Let_def intro: window_inv_setFoodName
          split: if_splits)
  qed
next
  case (SuggestionsSettled i r)
  with assms show ?thesis
    by (auto simp: suggestionsSettled_frame intro: window_inv_frame split: if_splits)
next
  case (ImportLoaded c)
  with assms show ?thesis
    by (auto simp: importDiet_frame intro: window_inv_frame)
next
  case ClickAdd
  with assms show ?thesis
    by (auto simp: handleAddFood_frame intro: window_inv_frame split: if_splits)
qed (use assms in \<open>auto simp: window_inv_def timer_inv_def\<close>)

lemma ticks_Cons: "ticks (e # es) = ticks [e] + ticks es"
  by (cases e) simp_all

lemma window_inv_run:
  assumes "window_inv c0 h w" and "list_all quiet es" and "clock w + ticks es < c0 + 300"
    and "run es w = Some w'"
  shows "window_inv c0 h w'"
  using assms
proof (induction es arbitrary: w)
  case Nil
  then show ?case by simp
next
  case (Cons e es)
  from Cons.prems(4) obtain w1 where s: "step e w = Some w1" and r: "run es w1 = Some w'"
    by (auto split: option.splits)
  from Cons.prems(3) have b: "clock w + ticks [e] + ticks es < c0 + 300"
    using ticks_Cons [of e es] by simp
  then have "clock w + ticks [e] < c0 + 300" by simp
  with Cons.prems s have w1: "window_inv c0 h w1"
    by (auto intro: window_inv_step)
  from clock_step [OF s] b have "clock w1 + ticks es < c0 + 300" by simp
  with Cons.IH [OF w1 _ _ r] Cons.prems(2) show ?case by simp
qed

subsection \<open>After the last change of the query\<close>

lemma settled_inv_setFoodName_Nil:
  assumes "settled_inv q h w"
  shows "settled_inv q h (setFoodName [] w)"
proof (cases "[] = foodName w")
  case True
  with assms show ?thesis by (simp add: setFoodName_def)
next
  case False
  from assms have t: "timer_inv w" by (simp add: settled_inv_def)
  from timers_setFoodName(1) [OF t False] timer_inv_setFoodName [OF t, of "[]"] assms
  show ?thesis
    by (auto simp: settled_inv_def setFoodName_frame)
qed

lemma settled_inv_frame:
  assumes "settled_inv q h w" and "timers w' = timers w" and "effectTimer w' = effectTimer w"
    and "foodName w' = foodName w" and "issued w' = issued w"
  shows "settled_inv q h w'"
  using assms by (simp add: settled_inv_def timer_inv_def)

lemma settled_inv_timerFires:
  assumes "settled_inv q h w" and "find p (timers w) = Some t"
  shows "settled_inv q h (timerFires t w)"
proof -
  from assms have t: "timer_inv w" by (simp add: settled_inv_def)
  from assms t have ts: "timers w = [t]"
    by (auto simp: timer_inv_def intro: find_singleton)
  with t have cap: "snd (snd t) = foodName w"
    by (simp add: timer_inv_def)
  have t': "timer_inv (timerFires t w)" and e: "timers (timerFires t w) = []"
    using timer_inv_timerFires [OF t assms(2)] by simp_all
  have fn: "foodName (timerFires t w) = foodName w"
    by (simp add: timerFires_frame)
  show ?thesis
  proof (cases "snd (snd t) = []")
    case True
    then have "issued (timerFires t w) = issued w"
      by (simp add: timerFires_def Let_def)
    with assms(1) t' e fn show ?thesis
      by (auto simp: settled_inv_def)
  next
    case False
    with cap assms(1) have q: "snd (snd t) = q" and h: "issued w = h"
      by (auto simp: settled_inv_def ts)
    from False q h have "issued (timerFires t w) = h \<or> issued (timerFires t w) = h @ [q]"
      by (simp add: timerFires_def Let_def fetchSuggestions_def)
    with assms(1) t' e fn show ?thesis
      by (auto simp: settled_inv_def)
  qed
qed

lemma settled_inv_step:
  assumes "settled_inv q h w" and "quiet e" and "step e w = Some w'"
  shows "settled_inv q h w'"
proof (cases e)
  case (TimerFires i)
  with assms show ?thesis
    by (auto intro: settled_inv_timerFires split: option.splits if_splits)
next
  case (NutritionSettled i r)
  show ?thesis
  proof (cases r)
    case (Inl f)
    with assms NutritionSettled show ?thesis
      by (auto simp: nutritionSettled_def Let_def intro: settled_inv_frame split: if_splits)
  next
    case (Inr info)
    have "settled_inv q h (w\<lparr>nutritionFetches := remove_nth i (nutritionFetches w),
        isLoading := False, foodItems := nutritionFetches w ! i @ [info],
        suggestions := [], showSuggestions := False\<rparr>)"
      using assms(1) by (simp add: settled_inv_def timer_inv_def)
    with assms NutritionSettled Inr show ?thesis
      by (auto simp: nutritionSettled_def Let_def intro: settled_inv_setFoodName_Nil
          split: if_splits)
  qed
next
  case (SuggestionsSettled i r)
  with assms show ?thesis
    by (auto simp: suggestionsSettled_frame intro: settled_inv_frame split: if_splits)
next
  case (ImportLoaded c)
  with assms show ?thesis
    by (auto simp: importDiet_frame intro: settled_inv_frame)
next
  case ClickAdd
  with assms show ?thesis
    by (auto simp: handleAddFood_frame intro: settled_inv_frame split: if_splits)
qed (use assms in \<open>auto simp: settled_inv_def timer_inv_def\<close>)

lemma settled_inv_run:
  assumes "settled_inv q h w" and "list_all quiet es" and "run es w = Some w'"
  shows "settled_inv q h w'"
  using assms
proof (induction es arbitrary: w)
  case Nil
  then show ?case by simp
next
  case (Cons e es)
  from Cons.prems(3) obtain w1 where s: "step e w = Some w1" and r: "run es w1 = Some w'"
    by (auto split: option.splits)
  from Cons.prems s have "settled_inv q h w1"
    by (auto intro: settled_inv_step)
  with Cons.IH [OF _ _ r] Cons.prems(2) show ?case by simp
qed

lemma run_append:
  "run (xs @ ys) w = (case run xs w of None \<Rightarrow> None | Some w1 \<Rightarrow> run ys w1)"
  by (induction xs arbitrary: w) (auto split: option.splits)

lemma window_opens:
  assumes "timer_inv w" and "v \<noteq> foodName w"
  shows "window_inv (clock w) (issued w) (setFoodName v w)"
  using timers_setFoodName(1) [OF assms] timer_inv_setFoodName [OF assms(1), of v]
  by (simp add: window_inv_def setFoodName_frame)

lemma window_closes:
  assumes "window_inv c0 h w"
  shows "settled_inv q h (setFoodName q w)"
proof -
  from assms have "timer_inv w" and "issued w = h"
    by (simp_all add: window_inv_def)
  with timer_inv_setFoodName [of w q] show ?thesis
    by (simp add: settled_inv_def setFoodName_frame)
qed

text \<open>
  C7. From any state the component reaches, let the user change the query to \<open>q1\<close> and,
  less than 300 time units later, to \<open>q2\<close>, with no other change of the query by the
  user before or after the second one. Then, whatever else happens and however long one
  waits, at most one suggestion lookup is sent from the first change on, and it is for
  \<open>q2\<close>. The witness runs the two changes \<open>a\<close> and \<open>ap\<close>, 100 apart, lets the timer fire,
  and finds the one lookup for \<open>ap\<close>.
\<close>

theorem debounce_one_lookup:
  assumes "reachable w0" and "foodName w0 \<noteq> q1"
    and "list_all quiet mid" and "ticks mid < 300" and "list_all quiet es"
    and "run (ChangeFoodName q1 # mid @ ChangeFoodName q2 # es) w0 = Some w'"
  shows "issued w' = issued w0 \<or> issued w' = issued w0 @ [q2]"
proof -
  from assms(6) obtain w2 where m: "run mid (setFoodName q1 w0) = Some w2"
    and r: "run es (setFoodName q2 w2) = Some w'"
    by (auto simp: run_append split: option.splits)
  from assms(1) have "timer_inv w0" by (rule reachable_timer_inv)
  with assms(2) have "window_inv (clock w0) (issued w0) (setFoodName q1 w0)"
    by (intro window_opens) simp_all
  from window_inv_run [OF this assms(3) _ m] assms(4)
  have "window_inv (clock w0) (issued w0) w2"
    by (simp add: setFoodName_frame)
  then have "settled_inv q2 (issued w0) (setFoodName q2 w2)"
    by (rule window_closes)
  from settled_inv_run [OF this assms(5) r] show ?thesis
    by (auto simp: settled_inv_def)
qed

theorem debounce_one_lookup_witness:
  "reachable mount \<and> foodName mount \<noteq> js ''a''
   \<and> list_all quiet [Tick 100] \<and> ticks [Tick 100] < 300
   \<and> list_all quiet [Tick 300, TimerFires 2]
   \<and> map_option issued
        (run [ChangeFoodName (js ''a''), Tick 100, ChangeFoodName (js ''ap''), Tick 300,
              TimerFires 2] mount) = Some [js ''ap'']
   \<and> issued mount = []"
proof -
  have n: "foodName mount \<noteq> js ''a''"
    by (simp add: mount_def runEffect_def js_def)
  have "\<exists>w'. run [ChangeFoodName (js ''a''), Tick 100, ChangeFoodName (js ''ap''), Tick 300,
                  TimerFires 2] mount = Some w' \<and> issued w' = [js ''ap'']"
    by (simp add: setFoodName_def mount_def runEffect_def js_def timerFires_def
        fetchSuggestions_def trim_def is_ws_def Let_def)
  then obtain w' where
    r: "run [ChangeFoodName (js ''a''), Tick 100, ChangeFoodName (js ''ap''), Tick 300,
             TimerFires 2] mount = Some w'"
    and i: "issued w' = [js ''ap'']"
    by blast
  from r have r': "run (ChangeFoodName (js ''a'') # [Tick 100] @ ChangeFoodName (js ''ap'')
                # [Tick 300, TimerFires 2]) mount = Some w'"
    by simp
  have "issued w' = issued mount \<or> issued w' = issued mount @ [js ''ap'']"
    by (rule debounce_one_lookup [OF reachable_mount n _ _ _ r']) simp_all
  with n r i show ?thesis
    by (simp add: reachable_mount) (simp add: mount_def runEffect_def)
qed

subsection \<open>A late suggestion response\<close>

text \<open>
  C6. A change of the query cancels the pending debounce timer: afterwards the only timer
  is the new one, so a query replaced before its timer fires is never looked up. It does
  not cancel a lookup that has been sent, and the response is not checked against the
  current query: when the response of any outstanding lookup arrives after the change, it
  becomes the suggestion list and the list is shown. In the counterexample the answer to
  \<open>a\<close> arrives after the answer to \<open>ap\<close> and replaces it, while the query is \<open>ap\<close>.
\<close>

theorem stale_response_overwrites:
  assumes "reachable w" and "v \<noteq> foodName w" and "i < length (suggestFetches w)"
  shows "timers (setFoodName v w) = [(nextTimer w, clock w + 300, v)]
       \<and> suggestFetches (setFoodName v w) = suggestFetches w
       \<and> step (SuggestionsSettled i (Inr names)) (setFoodName v w)
           = Some (suggestionsSettled i (Inr names) (setFoodName v w))
       \<and> foodName (suggestionsSettled i (Inr names) (setFoodName v w)) = v
       \<and> suggestions (suggestionsSettled i (Inr names) (setFoodName v w)) = names
       \<and> showSuggestions (suggestionsSettled i (Inr names) (setFoodName v w))"
proof -
  from assms(1) have "timer_inv w" by (rule reachable_timer_inv)
  from timers_setFoodName(1) [OF this assms(2)] assms(3) show ?thesis
    by (simp add: setFoodName_frame suggestionsSettled_frame)
       (simp add: suggestionsSettled_def)
qed

theorem stale_response_overwrites_witness:
  "map_option suggestion_view
     (run [ChangeFoodName (js ''a''), Tick 300, TimerFires 1] mount)
     = Some (js ''a'', [], [js ''a''])
   \<and> js ''ap'' \<noteq> js ''a''
   \<and> map_option suggestion_view
     (run [ChangeFoodName (js ''a''), Tick 300, TimerFires 1, ChangeFoodName (js ''ap''),
           SuggestionsSettled 0 (Inr [js ''Avocado''])] mount)
     = Some (js ''ap'', [js ''Avocado''], [])"
proof -
  have "\<exists>w. run [ChangeFoodName (js ''a''), Tick 300, TimerFires 1] mount = Some w
          \<and> suggestion_view w = (js ''a'', [], [js ''a''])"
    by (simp add: setFoodName_def mount_def runEffect_def js_def timerFires_def
        fetchSuggestions_def trim_def is_ws_def Let_def suggestion_view_def)
  then obtain w where r: "run [ChangeFoodName (js ''a''), Tick 300, TimerFires 1] mount = Some w"
    and v: "suggestion_view w = (js ''a'', [], [js ''a''])"
    by blast
  from reachable_run [OF reachable_mount r] have rw: "reachable w" .
  from v have n: "js ''ap'' \<noteq> foodName w" and l: "0 < length (suggestFetches w)"
    and sf: "suggestFetches w = [js ''a'']"
    by (simp_all add: suggestion_view_def js_def)
  note t = stale_response_overwrites [OF rw n l, of "[js ''Avocado'']"]
  from t have s: "step (SuggestionsSettled 0 (Inr [js ''Avocado''])) (setFoodName (js ''ap'') w)
           = Some (suggestionsSettled 0 (Inr [js ''Avocado'']) (setFoodName (js ''ap'') w))"
    by (rule conjunct1 [OF conjunct2 [OF conjunct2]])
  have "run ([ChangeFoodName (js ''a''), Tick 300, TimerFires 1]
             @ [ChangeFoodName (js ''ap''), SuggestionsSettled 0 (Inr [js ''Avocado''])]) mount
        = run [ChangeFoodName (js ''ap''), SuggestionsSettled 0 (Inr [js ''Avocado''])] w"
    by (simp only: run_append r option.case)
  also have "\<dots> = Some (suggestionsSettled 0 (Inr [js ''Avocado''])
                      (setFoodName (js ''ap'') w))"
    by (simp only: run.simps step.simps(1) option.case s)
  finally have a: "run [ChangeFoodName (js ''a''), Tick 300, TimerFires 1,
             ChangeFoodName (js ''ap''), SuggestionsSettled 0 (Inr [js ''Avocado''])] mount
        = Some (suggestionsSettled 0 (Inr [js ''Avocado'']) (setFoodName (js ''ap'') w))"
    by simp
  from t sf have b: "suggestion_view (suggestionsSettled 0 (Inr [js ''Avocado''])
                    (setFoodName (js ''ap'') w)) = (js ''ap'', [js ''Avocado''], [])"
    by (simp add: suggestion_view_def suggestionsSettled_def remove_nth_def)
  have c: "js ''ap'' \<noteq> js ''a''"
    by (simp add: js_def)
  show ?thesis
    by (simp only: a r v b c option.map) simp
qed

theorem stale_response_counterexample:
  "map_option suggestion_view
     (run [ChangeFoodName (js ''a''), Tick 300, TimerFires 1,
           ChangeFoodName (js ''ap''), Tick 300, TimerFires 2,
           SuggestionsSettled 1 (Inr [js ''Apple''])] mount)
     = Some (js ''ap'', [js ''Apple''], [js ''a''])
   \<and> map_option suggestion_view
     (run [ChangeFoodName (js ''a''), Tick 300, TimerFires 1,
           ChangeFoodName (js ''ap''), Tick 300, TimerFires 2,
           SuggestionsSettled 1 (Inr [js ''Apple'']),
           SuggestionsSettled 0 (Inr [js ''Avocado''])] mount)
     = Some (js ''ap'', [js ''Avocado''], [])"
  by (simp add: setFoodName_def mount_def runEffect_def js_def timerFires_def
      fetchSuggestions_def trim_def is_ws_def Let_def suggestion_view_def
      suggestionsSettled_def remove_nth_def)

end
